theory Spec2Isabelle
  imports Complex_Main
begin

section \<open>Roof geometry and estimation engine (tools/roofing_analysis_engine.py)\<close>

text \<open>
  The source computes on Python floats. The embedding computes on the reals: every
  literal is the decimal the source writes, \<open>math.tan\<close>, \<open>math.cos\<close>,
  \<open>math.sqrt\<close> are the real functions and \<open>math.radians\<close> multiplies by
  \<open>pi / 180\<close>. The reals and the floats part in these places, and the theorems
  stated for C1 to C10 below keep away from them:
  \<^item> the real tangent is \<open>0\<close> at odd multiples of a right angle, where the float
    tangent is a very large number, so none of these theorems gives the value of
    \<open>hip_valley_factor\<close> at 90 degrees;
  \<^item> the real \<open>hip_valley_factor\<close> is exactly 1 at pitch 0, the float one is one unit
    in the last place below 1, so none of these theorems states that the unrounded
    factor is at least 1: the stored factor, rounded to three decimals, is the same in
    both;
  \<^item> the float sum \<open>(deg % 360) + 360\<close> of \<open>degrees_to_cardinal\<close> is rounded, the
    real sum is exact, so they can disagree for a bearing closer than about \<open>1e-13\<close>
    degrees to a sector midpoint without being on it;
  \<^item> a float product such as \<open>3000 * 1.1\<close> can exceed its real value by one unit in
    the last place, which \<open>math.ceil\<close> turns into one more unit ordered; none of
    these theorems fixes an ordered quantity for a general input;
  \<^item> a float that is too large to print in positional notation is printed with an
    exponent, which \<open>str_tenths\<close> does not do.
\<close>

subsection \<open>Python built-ins\<close>

datatype py_error = ValueError

text \<open>
  \<open>round(x)\<close> with one argument returns the nearest integer and sends a tie to the
  even neighbour.
\<close>

definition py_round :: "real \<Rightarrow> int" where
  "py_round x =
     (let f = \<lfloor>x\<rfloor>; d = x - of_int f
      in if d < 1 / 2 then f
         else if 1 / 2 < d then f + 1
         else if even f then f else f + 1)"

text \<open>\<open>x % m\<close> on floats, for a positive \<open>m\<close>: the result lies in \<open>[0, m)\<close>.\<close>

definition py_fmod :: "real \<Rightarrow> real \<Rightarrow> real" where
  "py_fmod x m = x - m * of_int \<lfloor>x / m\<rfloor>"

definition radians :: "real \<Rightarrow> real" where
  "radians d = d * pi / 180"

text \<open>\<open>str\<close> of a non-negative integer.\<close>

function str_nat :: "nat \<Rightarrow> string" where
  "str_nat n =
     (if n < 10 then [''0123456789'' ! n]
      else str_nat (n div 10) @ [''0123456789'' ! (n mod 10)])"
  by pat_completeness auto
termination
  by (relation "measure id") auto

text \<open>
  The text of the float \<open>n / 10\<close> for an integer \<open>n\<close>, as an f-string prints it: the
  integral part, a point and one decimal digit (\<open>80 / 10\<close> prints as \<open>8.0\<close>).
\<close>

definition str_tenths :: "int \<Rightarrow> string" where
  "str_tenths n =
     (if n < 0 then ''-'' else '''') @ str_nat (nat \<bar>n\<bar> div 10) @ ''.''
       @ str_nat (nat \<bar>n\<bar> mod 10)"

subsection \<open>Constants\<close>

definition WASTE_FACTORS :: "(int \<times> real \<times> string) list" where
  "WASTE_FACTORS =
     [(5, 1.05, ''Minimal waste (simple gable)''),
      (10, 1.10, ''Standard waste (moderate complexity)''),
      (15, 1.15, ''Above average (hips/valleys)''),
      (20, 1.20, ''High waste (complex/cut-up roof)'')]"

definition PRICING :: "string \<rightharpoonup> real" where
  "PRICING = map_of
     [(''architectural_bundle'', 42.00),
      (''3tab_bundle'', 32.00),
      (''underlayment_roll'', 85.00),
      (''ice_shield_roll'', 125.00),
      (''starter_bundle'', 35.00),
      (''ridge_cap_bundle'', 55.00),
      (''drip_edge_piece'', 8.50),
      (''valley_flashing_piece'', 22.00),
      (''nail_box_30lb'', 65.00),
      (''ridge_vent_piece'', 18.00)]"

subsection \<open>Data classes\<close>

record RoofSegment =
  name :: string
  footprint_area_sqft :: real
  true_area_sqft :: real
  true_area_sqm :: real
  pitch_degrees :: real
  pitch_ratio :: string
  azimuth_degrees :: real
  azimuth_direction :: string
  plane_height_meters :: "real option"

record EdgeMeasurement =
  edge_type :: string
  label :: string
  plan_length_ft :: real
  true_length_ft :: real
  pitch_factor :: real
  adjacent_segments :: "nat list option"

record MaterialLineItem =
  category :: string
  description :: string
  unit :: string
  net_quantity :: real
  waste_pct :: real
  gross_quantity :: real
  order_quantity :: real
  order_unit :: string
  unit_price_cad :: real
  line_total_cad :: real

record MaterialEstimate =
  net_area_sqft :: real
  waste_pct :: real
  gross_area_sqft :: real
  gross_squares :: real
  bundle_count :: int
  line_items :: "MaterialLineItem list"
  total_material_cost_cad :: real
  complexity_factor :: real
  complexity_class :: string
  shingle_type :: string

record RASSegmentYield =
  segment_name :: string
  pitch_degrees :: real
  pitch_ratio :: string
  area_sqft :: real
  recovery_class :: string
  binder_oil_gallons :: real
  granules_lbs :: real
  fiber_lbs :: real

record RASYieldAnalysis =
  total_area_sqft :: real
  total_squares :: real
  estimated_weight_lbs :: real
  segments :: "RASSegmentYield list"
  total_binder_oil_gallons :: real
  total_granules_lbs :: real
  total_fiber_lbs :: real
  total_recoverable_lbs :: real
  recovery_rate_pct :: real
  market_value_oil_cad :: real
  market_value_granules_cad :: real
  market_value_fiber_cad :: real
  market_value_total_cad :: real
  processing_recommendation :: string
  slope_distribution :: "(string \<times> real) list"

record EdgeSummary =
  total_ridge_ft :: real
  total_hip_ft :: real
  total_valley_ft :: real
  total_eave_ft :: real
  total_rake_ft :: real
  total_linear_ft :: real

record WasteTableRow =
  row_waste_pct :: int
  factor :: real
  row_description :: string
  gross_sqft :: int
  squares :: real
  bundles :: int

subsection \<open>Geometry helpers\<close>

definition dirs :: "string list" where
  "dirs = [''N'', ''NNE'', ''NE'', ''ENE'', ''E'', ''ESE'', ''SE'', ''SSE'',
           ''S'', ''SSW'', ''SW'', ''WSW'', ''W'', ''WNW'', ''NW'', ''NNW'']"

definition cardinal_index :: "real \<Rightarrow> int" where
  "cardinal_index deg = py_round (py_fmod (py_fmod deg 360 + 360) 360 / 22.5) mod 16"

definition degrees_to_cardinal :: "real \<Rightarrow> string" where
  "degrees_to_cardinal deg = dirs ! nat (cardinal_index deg)"

definition pitch_to_ratio :: "real \<Rightarrow> string" where
  "pitch_to_ratio degrees =
     (if degrees \<le> 0 \<or> degrees \<ge> 90 then ''0:12''
      else let rise = 12 * tan (radians degrees)
           in str_tenths (py_round (rise * 10)) @ '':12'')"

definition true_area_from_footprint :: "real \<Rightarrow> real \<Rightarrow> real" where
  "true_area_from_footprint footprint_sqft pitch =
     (if pitch \<le> 0 \<or> pitch \<ge> 90 then footprint_sqft
      else let cos_angle = cos (radians pitch)
           in if cos_angle \<le> 0 then footprint_sqft
              else footprint_sqft / cos_angle)"

definition hip_valley_factor :: "real \<Rightarrow> real" where
  "hip_valley_factor pitch =
     (let rise = 12 * tan (radians pitch)
      in sqrt (2 * rise * rise + 288) / (12 * sqrt 2))"

definition rake_factor :: "real \<Rightarrow> real" where
  "rake_factor pitch =
     (if pitch \<le> 0 \<or> pitch \<ge> 90 then 1.0
      else 1.0 / cos (radians pitch))"

subsection \<open>Complexity classification\<close>

definition complexity_score :: "int \<Rightarrow> int \<Rightarrow> int \<Rightarrow> real \<Rightarrow> int" where
  "complexity_score segment_count hip_count valley_count pitch_variation =
     (if segment_count \<le> 2 then 0
      else if segment_count \<le> 4 then 1
      else if segment_count \<le> 6 then 2
      else 3)
     + min hip_count 4
     + min (valley_count * 2) 6
     + (if pitch_variation > 10 then 2
        else if pitch_variation > 5 then 1
        else 0)"

definition classify_complexity :: "int \<Rightarrow> int \<Rightarrow> int \<Rightarrow> real \<Rightarrow> real \<times> string" where
  "classify_complexity segment_count hip_count valley_count pitch_variation =
     (let score = complexity_score segment_count hip_count valley_count pitch_variation
      in if score \<le> 2 then (1.0, ''simple'')
         else if score \<le> 5 then (1.05, ''moderate'')
         else if score \<le> 8 then (1.10, ''complex'')
         else (1.15, ''very_complex''))"

text \<open>\<open>waste_map.get(complexity_class, 10)\<close> of \<open>compute_material_estimate\<close>.\<close>

definition waste_map :: "string \<rightharpoonup> int" where
  "waste_map = map_of
     [(''simple'', 10), (''moderate'', 12), (''complex'', 14), (''very_complex'', 15)]"

definition base_waste_of :: "string \<Rightarrow> int" where
  "base_waste_of cls = (case waste_map cls of Some w \<Rightarrow> w | None \<Rightarrow> 10)"

subsection \<open>Edge generation engine\<close>

definition horizontal_edge :: "string \<Rightarrow> string \<Rightarrow> real \<Rightarrow> nat list option \<Rightarrow> EdgeMeasurement" where
  "horizontal_edge ty lbl plan adj =
     \<lparr>edge_type = ty, label = lbl,
      plan_length_ft = of_int (py_round plan),
      true_length_ft = of_int (py_round plan),
      pitch_factor = 1.0,
      adjacent_segments = adj\<rparr>"

definition sloped_edge :: "string \<Rightarrow> real \<Rightarrow> real \<Rightarrow> real \<Rightarrow> string \<Rightarrow> EdgeMeasurement" where
  "sloped_edge ty plan true_ft f lbl =
     \<lparr>edge_type = ty, label = lbl,
      plan_length_ft = of_int (py_round plan),
      true_length_ft = of_int (py_round true_ft),
      pitch_factor = of_int (py_round (f * 1000)) / 1000,
      adjacent_segments = None\<rparr>"

text \<open>
  \<open>math.sqrt\<close> raises \<open>ValueError\<close> on a negative argument; the empty segment list
  returns before the square root is taken.
\<close>

definition generate_edges :: "RoofSegment list \<Rightarrow> real \<Rightarrow> py_error + EdgeMeasurement list" where
  "generate_edges segs total_footprint_sqft =
     (if segs = [] then Inr []
      else if total_footprint_sqft / 1.5 < 0 then Inl ValueError
      else
        let building_width_ft = sqrt (total_footprint_sqft / 1.5);
            building_length_ft = building_width_ft * 1.5;
            avg_pitch = sum_list (map RoofSegment.pitch_degrees segs) / real (length segs);
            n = length segs;
            main_ridge_plan_ft = building_length_ft * 0.85;
            main_ridge = [horizontal_edge ''ridge'' ''Main Ridge Line'' main_ridge_plan_ft
                            (Some [0, 1])];
            wing_ridge =
              (if n \<ge> 4
               then let wing_ridge_plan_ft = building_width_ft * 0.5
                    in [horizontal_edge ''ridge'' ''Wing Ridge Line'' wing_ridge_plan_ft
                          (Some [2, 3])]
               else []);
            hips =
              (if n \<ge> 4
               then let hip_plan_ft = building_width_ft / 2 * sqrt 2;
                        hv_factor = hip_valley_factor avg_pitch;
                        hip_true_ft = hip_plan_ft * hv_factor
                    in map (sloped_edge ''hip'' hip_plan_ft hip_true_ft hv_factor)
                         [''NE Hip'', ''NW Hip'', ''SE Hip'', ''SW Hip'']
               else []);
            valleys =
              (if n \<ge> 4
               then let valley_plan_ft = building_width_ft * 0.35;
                        vf = hip_valley_factor avg_pitch;
                        valley_true_ft = valley_plan_ft * vf
                    in map (sloped_edge ''valley'' valley_plan_ft valley_true_ft vf)
                         [''East Valley'', ''West Valley'']
               else []);
            eave_sections =
              (if n \<ge> 4
               then [(''South Eave'', building_length_ft * 0.9),
                     (''North Eave'', building_length_ft * 0.9),
                     (''East Eave'', building_width_ft * 0.4),
                     (''West Eave'', building_width_ft * 0.4)]
               else [(''South Eave'', building_length_ft * 0.95),
                     (''North Eave'', building_length_ft * 0.95)]);
            eaves = map (\<lambda>(lbl, len). horizontal_edge ''eave'' lbl len None) eave_sections;
            rakes =
              (if n \<le> 3
               then let rake_plan_ft = building_width_ft / 2;
                        rf = rake_factor avg_pitch;
                        rake_true_ft = rake_plan_ft * rf
                    in map (sloped_edge ''rake'' rake_plan_ft rake_true_ft rf)
                         [''East Rake (Left)'', ''East Rake (Right)'',
                          ''West Rake (Left)'', ''West Rake (Right)'']
               else [])
        in Inr (main_ridge @ wing_ridge @ hips @ valleys @ eaves @ rakes))"

text \<open>One turn of the loop of \<open>compute_edge_summary\<close>.\<close>

definition add_edge :: "EdgeSummary \<Rightarrow> EdgeMeasurement \<Rightarrow> EdgeSummary" where
  "add_edge s e =
     (if edge_type e = ''ridge'' then s\<lparr>total_ridge_ft := total_ridge_ft s + true_length_ft e\<rparr>
      else if edge_type e = ''hip'' then s\<lparr>total_hip_ft := total_hip_ft s + true_length_ft e\<rparr>
      else if edge_type e = ''valley'' then s\<lparr>total_valley_ft := total_valley_ft s + true_length_ft e\<rparr>
      else if edge_type e = ''eave'' then s\<lparr>total_eave_ft := total_eave_ft s + true_length_ft e\<rparr>
      else if edge_type e = ''rake'' then s\<lparr>total_rake_ft := total_rake_ft s + true_length_ft e\<rparr>
      else s)"

definition compute_edge_summary :: "EdgeMeasurement list \<Rightarrow> EdgeSummary" where
  "compute_edge_summary edges =
     (let s = foldl add_edge
                \<lparr>total_ridge_ft = 0, total_hip_ft = 0, total_valley_ft = 0,
                 total_eave_ft = 0, total_rake_ft = 0, total_linear_ft = 0\<rparr> edges;
          ridge = of_int (py_round (total_ridge_ft s));
          hip = of_int (py_round (total_hip_ft s));
          valley = of_int (py_round (total_valley_ft s));
          eave = of_int (py_round (total_eave_ft s));
          rake = of_int (py_round (total_rake_ft s))
      in \<lparr>total_ridge_ft = ridge, total_hip_ft = hip, total_valley_ft = valley,
          total_eave_ft = eave, total_rake_ft = rake,
          total_linear_ft = of_int (py_round (ridge + hip + valley + eave + rake))\<rparr>)"

subsection \<open>Material estimate (bill of materials)\<close>

text \<open>\<open>max(pitches) - min(pitches) if pitches else 0\<close>.\<close>

definition pitch_variation_of :: "real list \<Rightarrow> real" where
  "pitch_variation_of pitches =
     (if pitches = [] then 0
      else foldl max (hd pitches) (tl pitches) - foldl min (hd pitches) (tl pitches))"

text \<open>\<open>round(quantity * price * 100) / 100\<close>, the total of one line.\<close>

definition line_total :: "int \<Rightarrow> real \<Rightarrow> real" where
  "line_total quantity price = of_int (py_round (of_int quantity * price * 100)) / 100"

definition edge_total :: "string \<Rightarrow> EdgeMeasurement list \<Rightarrow> real" where
  "edge_total ty edges = sum_list (map true_length_ft (filter (\<lambda>e. edge_type e = ty) edges))"

definition compute_material_estimate ::
    "real \<Rightarrow> EdgeMeasurement list \<Rightarrow> RoofSegment list \<Rightarrow> string \<Rightarrow> MaterialEstimate" where
  "compute_material_estimate area edges segs stype =
     (let hip_edges = filter (\<lambda>e. edge_type e = ''hip'') edges;
          valley_edges = filter (\<lambda>e. edge_type e = ''valley'') edges;
          pitches = map RoofSegment.pitch_degrees segs;
          pitch_variation = pitch_variation_of pitches;
          (cfactor, cclass) =
             classify_complexity (int (length segs)) (int (length hip_edges))
               (int (length valley_edges)) pitch_variation;
          base_waste = base_waste_of cclass;
          net_area = area;
          gross_area = net_area * (1 + of_int base_waste / 100);
          gross_sq = of_int \<lceil>gross_area / 100 * 10\<rceil> / 10;
          bundle_cnt = \<lceil>gross_sq * 3\<rceil>;
          ridge_ft = edge_total ''ridge'' edges;
          hip_ft = edge_total ''hip'' edges;
          valley_ft = edge_total ''valley'' edges;
          eave_ft = edge_total ''eave'' edges;
          rake_ft = edge_total ''rake'' edges;
          price_per_bundle =
             (if stype = ''architectural'' then the (PRICING ''architectural_bundle'')
              else the (PRICING ''3tab_bundle''));
          shingles =
             \<lparr>category = ''shingles'',
              description =
                (if stype = ''architectural'' then ''Architectural (Laminate)''
                 else ''3-Tab Standard'') @ '' Shingles'',
              unit = ''squares'',
              net_quantity = of_int (py_round (net_area / 100 * 10)) / 10,
              MaterialLineItem.waste_pct = of_int base_waste,
              gross_quantity = gross_sq,
              order_quantity = of_int bundle_cnt,
              order_unit = ''bundles'',
              unit_price_cad = price_per_bundle,
              line_total_cad = line_total bundle_cnt price_per_bundle\<rparr>;
          underlayment_rolls = \<lceil>gross_area / 1000\<rceil>;
          underlayment =
             \<lparr>category = ''underlayment'',
              description = ''Synthetic Underlayment'',
              unit = ''rolls'',
              net_quantity = of_int \<lceil>net_area / 1000\<rceil>,
              MaterialLineItem.waste_pct = 10,
              gross_quantity = of_int underlayment_rolls,
              order_quantity = of_int underlayment_rolls,
              order_unit = ''rolls'',
              unit_price_cad = the (PRICING ''underlayment_roll''),
              line_total_cad = line_total underlayment_rolls (the (PRICING ''underlayment_roll''))\<rparr>;
          ice_shield_linear_ft = eave_ft + valley_ft;
          ice_shield_sqft = ice_shield_linear_ft * 3;
          ice_shield_rolls = \<lceil>ice_shield_sqft / 75\<rceil>;
          ice_shield =
             \<lparr>category = ''ice_shield'',
              description = ''Ice & Water Shield Membrane'',
              unit = ''rolls'',
              net_quantity = of_int \<lceil>ice_shield_sqft / 75\<rceil>,
              MaterialLineItem.waste_pct = 5,
              gross_quantity = of_int ice_shield_rolls,
              order_quantity = of_int ice_shield_rolls,
              order_unit = ''rolls'',
              unit_price_cad = the (PRICING ''ice_shield_roll''),
              line_total_cad = line_total ice_shield_rolls (the (PRICING ''ice_shield_roll''))\<rparr>;
          starter_linear_ft = eave_ft + rake_ft;
          starter_bundles = \<lceil>starter_linear_ft / 105\<rceil>;
          starter_strip =
             \<lparr>category = ''starter_strip'',
              description = ''Starter Strip Shingles'',
              unit = ''linear_ft'',
              net_quantity = of_int (py_round starter_linear_ft),
              MaterialLineItem.waste_pct = 5,
              gross_quantity = of_int (py_round (starter_linear_ft * 1.05)),
              order_quantity = of_int starter_bundles,
              order_unit = ''bundles'',
              unit_price_cad = the (PRICING ''starter_bundle''),
              line_total_cad = line_total starter_bundles (the (PRICING ''starter_bundle''))\<rparr>;
          ridge_hip_linear_ft = ridge_ft + hip_ft;
          ridge_cap_bundles = \<lceil>ridge_hip_linear_ft / 33\<rceil>;
          ridge_cap =
             \<lparr>category = ''ridge_cap'',
              description = ''Ridge/Hip Cap Shingles'',
              unit = ''linear_ft'',
              net_quantity = of_int (py_round ridge_hip_linear_ft),
              MaterialLineItem.waste_pct = 5,
              gross_quantity = of_int (py_round (ridge_hip_linear_ft * 1.05)),
              order_quantity = of_int ridge_cap_bundles,
              order_unit = ''bundles'',
              unit_price_cad = the (PRICING ''ridge_cap_bundle''),
              line_total_cad = line_total ridge_cap_bundles (the (PRICING ''ridge_cap_bundle''))\<rparr>;
          drip_edge_linear_ft = eave_ft + rake_ft;
          drip_edge_pieces = \<lceil>drip_edge_linear_ft / 10\<rceil>;
          drip_edge =
             \<lparr>category = ''drip_edge'',
              description = ''Aluminum Drip Edge (10 ft sections)'',
              unit = ''pieces'',
              net_quantity = of_int \<lceil>drip_edge_linear_ft / 10\<rceil>,
              MaterialLineItem.waste_pct = 5,
              gross_quantity = of_int drip_edge_pieces,
              order_quantity = of_int drip_edge_pieces,
              order_unit = ''pieces'',
              unit_price_cad = the (PRICING ''drip_edge_piece''),
              line_total_cad = line_total drip_edge_pieces (the (PRICING ''drip_edge_piece''))\<rparr>;
          valley_metal =
             (if valley_ft > 0
              then let valley_pieces = \<lceil>valley_ft / 10\<rceil>
                   in [\<lparr>category = ''valley_metal'',
                        description = ''Pre-bent Valley Flashing (W-valley, 10 ft)'',
                        unit = ''pieces'',
                        net_quantity = of_int \<lceil>valley_ft / 10\<rceil>,
                        MaterialLineItem.waste_pct = 10,
                        gross_quantity = of_int valley_pieces,
                        order_quantity = of_int valley_pieces,
                        order_unit = ''pieces'',
                        unit_price_cad = the (PRICING ''valley_flashing_piece''),
                        line_total_cad =
                          line_total valley_pieces (the (PRICING ''valley_flashing_piece''))\<rparr>]
              else []);
          nail_lbs = \<lceil>gross_sq * 1.5\<rceil>;
          nail_boxes = \<lceil>of_int nail_lbs / (30 :: real)\<rceil>;
          nails =
             \<lparr>category = ''nails'',
              description = ''1-1/4'' @ [CHR 0x22] @ '' Galvanized Roofing Nails (30 lb box)'',
              unit = ''lbs'',
              net_quantity = of_int (py_round (gross_sq * 1.5)),
              MaterialLineItem.waste_pct = 0,
              gross_quantity = of_int nail_lbs,
              order_quantity = of_int nail_boxes,
              order_unit = ''boxes'',
              unit_price_cad = the (PRICING ''nail_box_30lb''),
              line_total_cad = line_total nail_boxes (the (PRICING ''nail_box_30lb''))\<rparr>;
          ventilation =
             (if ridge_ft > 0
              then let vent_pieces = \<lceil>ridge_ft / 4\<rceil>
                   in [\<lparr>category = ''ventilation'',
                        description = ''Ridge Vent (4 ft sections)'',
                        unit = ''pieces'',
                        net_quantity = of_int \<lceil>ridge_ft / 4\<rceil>,
                        MaterialLineItem.waste_pct = 5,
                        gross_quantity = of_int vent_pieces,
                        order_quantity = of_int vent_pieces,
                        order_unit = ''pieces'',
                        unit_price_cad = the (PRICING ''ridge_vent_piece''),
                        line_total_cad =
                          line_total vent_pieces (the (PRICING ''ridge_vent_piece''))\<rparr>]
              else []);
          items = [shingles, underlayment, ice_shield, starter_strip, ridge_cap, drip_edge]
                    @ valley_metal @ [nails] @ ventilation;
          total_cost = sum_list (map line_total_cad items)
      in \<lparr>net_area_sqft = of_int (py_round net_area),
          waste_pct = of_int base_waste,
          gross_area_sqft = of_int (py_round gross_area),
          gross_squares = of_int (py_round (gross_sq * 10)) / 10,
          bundle_count = bundle_cnt,
          line_items = items,
          total_material_cost_cad = of_int (py_round (total_cost * 100)) / 100,
          complexity_factor = cfactor,
          complexity_class = cclass,
          shingle_type = stype\<rparr>)"

subsection \<open>Waste table generation\<close>

definition waste_row :: "real \<Rightarrow> int \<times> real \<times> string \<Rightarrow> WasteTableRow" where
  "waste_row total_sqft = (\<lambda>(pct, fct, descr).
     let gross = total_sqft * fct;
         sq = gross / 100
     in \<lparr>row_waste_pct = pct, factor = fct, row_description = descr,
         gross_sqft = py_round gross,
         squares = of_int (py_round (sq * 10)) / 10,
         bundles = \<lceil>sq * 3\<rceil>\<rparr>)"

definition generate_waste_table :: "real \<Rightarrow> WasteTableRow list" where
  "generate_waste_table total_sqft = map (waste_row total_sqft) WASTE_FACTORS"

subsection \<open>RAS yield analysis\<close>

definition pitch_rise :: "real \<Rightarrow> real" where
  "pitch_rise pitch = 12 * tan (radians pitch)"

definition recovery_class_of :: "real \<Rightarrow> string" where
  "recovery_class_of rise =
     (if rise \<le> 4 then ''binder_oil''
      else if rise > 6 then ''granule''
      else ''mixed'')"

definition binder_rate :: "string \<rightharpoonup> real" where
  "binder_rate = map_of [(''binder_oil'', 0.32), (''mixed'', 0.28), (''granule'', 0.25)]"

definition granule_rate :: "string \<rightharpoonup> real" where
  "granule_rate = map_of [(''granule'', 0.40), (''mixed'', 0.36), (''binder_oil'', 0.33)]"

definition fiber_rate :: "string \<rightharpoonup> real" where
  "fiber_rate = map_of [(''binder_oil'', 0.08), (''mixed'', 0.07), (''granule'', 0.06)]"

definition weight_per_square :: "string \<Rightarrow> real" where
  "weight_per_square stype = (if stype = ''architectural'' then 250 else 230)"

text \<open>The body of the loop over the segments.\<close>

definition ras_segment :: "real \<Rightarrow> RoofSegment \<Rightarrow> RASSegmentYield" where
  "ras_segment wps seg =
     (let cls = recovery_class_of (pitch_rise (RoofSegment.pitch_degrees seg));
          seg_squares = true_area_sqft seg / 100;
          seg_weight = seg_squares * wps;
          binder_oil_lbs = seg_weight * the (binder_rate cls);
          gallons = binder_oil_lbs / 8
      in \<lparr>segment_name = name seg,
          pitch_degrees = RoofSegment.pitch_degrees seg,
          pitch_ratio = RoofSegment.pitch_ratio seg,
          area_sqft = true_area_sqft seg,
          recovery_class = cls,
          binder_oil_gallons = of_int (py_round (gallons * 10)) / 10,
          granules_lbs = of_int (py_round (seg_weight * the (granule_rate cls))),
          fiber_lbs = of_int (py_round (seg_weight * the (fiber_rate cls)))\<rparr>)"

definition class_area :: "string \<Rightarrow> RASSegmentYield list \<Rightarrow> real" where
  "class_area cls rs = sum_list (map area_sqft (filter (\<lambda>s. recovery_class s = cls) rs))"

definition recommendation_of :: "real \<Rightarrow> real \<Rightarrow> string" where
  "recommendation_of low_pct high_pct =
     (if low_pct > 60
      then ''Prioritize binder oil extraction - low-pitch dominant roof. ''
           @ ''Route to Rotto Chopper for optimal oil recovery. ''
           @ ''Ideal for cold patch and sealant production.''
      else if high_pct > 60
      then ''Prioritize granule separation - steep-pitch dominant roof. ''
           @ ''Run through screener line for clean granule recovery. ''
           @ ''High-grade output for resale.''
      else ''Mixed recovery stream - process through full RAS line. ''
           @ ''Extract binder oil first, then screen for granules and fiber. ''
           @ ''Blend output suitable for cold patch formulation.'')"

definition compute_ras_yield :: "RoofSegment list \<Rightarrow> real \<Rightarrow> string \<Rightarrow> RASYieldAnalysis" where
  "compute_ras_yield segs area stype =
     (let total_sq = area / 100;
          wps = weight_per_square stype;
          total_weight = total_sq * wps;
          ras_segments = map (ras_segment wps) segs;
          total_oil = sum_list (map binder_oil_gallons ras_segments);
          total_granules = sum_list (map granules_lbs ras_segments);
          total_fiber = sum_list (map fiber_lbs ras_segments);
          total_recoverable = (total_oil * 8) + total_granules + total_fiber;
          oil_value = total_oil * 3.50;
          granule_value = total_granules * 0.08;
          fiber_value = total_fiber * 0.12;
          low_pitch_area = class_area ''binder_oil'' ras_segments;
          med_pitch_area = class_area ''mixed'' ras_segments;
          high_pitch_area = class_area ''granule'' ras_segments;
          total_area =
             (if low_pitch_area + med_pitch_area + high_pitch_area = 0 then 1
              else low_pitch_area + med_pitch_area + high_pitch_area);
          low_pct = (low_pitch_area / total_area) * 100;
          high_pct = (high_pitch_area / total_area) * 100
      in \<lparr>total_area_sqft = of_int (py_round area),
          total_squares = of_int (py_round (total_sq * 10)) / 10,
          estimated_weight_lbs = of_int (py_round total_weight),
          segments = ras_segments,
          total_binder_oil_gallons = of_int (py_round (total_oil * 10)) / 10,
          total_granules_lbs = of_int (py_round total_granules),
          total_fiber_lbs = of_int (py_round total_fiber),
          total_recoverable_lbs = of_int (py_round total_recoverable),
          recovery_rate_pct =
            of_int (py_round ((total_recoverable / (if total_weight = 0 then 1 else total_weight))
                               * 1000)) / 10,
          market_value_oil_cad = of_int (py_round (oil_value * 100)) / 100,
          market_value_granules_cad = of_int (py_round (granule_value * 100)) / 100,
          market_value_fiber_cad = of_int (py_round (fiber_value * 100)) / 100,
          market_value_total_cad =
            of_int (py_round ((oil_value + granule_value + fiber_value) * 100)) / 100,
          processing_recommendation = recommendation_of low_pct high_pct,
          slope_distribution =
            [(''low_pitch_pct'', of_int (py_round (low_pct * 10)) / 10),
             (''medium_pitch_pct'',
                of_int (py_round (((med_pitch_area / total_area) * 100) * 10)) / 10),
             (''high_pitch_pct'', of_int (py_round (high_pct * 10)) / 10)]\<rparr>)"

section \<open>Properties\<close>

subsection \<open>Rounding\<close>

lemma py_round_of_int: "py_round (of_int n) = n"
  by (simp add: py_round_def)

lemma py_round_upper: "of_int (py_round x) \<le> x + 1 / 2"
  unfolding py_round_def Let_def by (auto; linarith)

lemma py_round_lower: "x - 1 / 2 \<le> of_int (py_round x)"
  unfolding py_round_def Let_def by (auto; linarith)

lemma py_round_mono: "x \<le> y \<Longrightarrow> py_round x \<le> py_round y"
proof -
  assume xy: "x \<le> y"
  have fl: "\<lfloor>x\<rfloor> \<le> \<lfloor>y\<rfloor>" using xy by (rule floor_mono)
  show ?thesis
  proof (cases "\<lfloor>x\<rfloor> = \<lfloor>y\<rfloor>")
    case True
    then show ?thesis using xy unfolding py_round_def Let_def by auto
  next
    case False
    with fl have "\<lfloor>x\<rfloor> + 1 \<le> \<lfloor>y\<rfloor>" by simp
    moreover have "py_round x \<le> \<lfloor>x\<rfloor> + 1" unfolding py_round_def Let_def by auto
    moreover have "\<lfloor>y\<rfloor> \<le> py_round y" unfolding py_round_def Let_def by auto
    ultimately show ?thesis by linarith
  qed
qed

lemma py_round_nonneg: "0 \<le> x \<Longrightarrow> 0 \<le> py_round x"
  using py_round_mono [of 0 x] py_round_of_int [of 0] by simp

subsection \<open>Complexity classification\<close>

text \<open>
  C9. Two segments with no hip, no valley and no pitch variation score 0 and are
  classified simple with factor 1.00 and a default waste of 10 percent; six segments with
  four hips, two valleys and a pitch variation of 12 degrees score 2 + 4 + 4 + 2 = 12 and
  are classified very complex with factor 1.15 and a default waste of 15 percent.
\<close>

theorem classify_complexity_boundaries:
  "complexity_score 2 0 0 0 = 0
   \<and> classify_complexity 2 0 0 0 = (1.00, ''simple'')
   \<and> base_waste_of (snd (classify_complexity 2 0 0 0)) = 10
   \<and> complexity_score 6 4 2 12 = 2 + 4 + 4 + 2
   \<and> classify_complexity 6 4 2 12 = (1.15, ''very_complex'')
   \<and> base_waste_of (snd (classify_complexity 6 4 2 12)) = 15"
  by (simp add: complexity_score_def classify_complexity_def base_waste_of_def waste_map_def)

subsection \<open>The empty segment list\<close>

text \<open>
  C10. On the empty segment list the edge generation returns the empty edge list, whatever
  the footprint, and does not raise; the summary of no edges has all five totals and the
  grand total equal to 0.
\<close>

theorem empty_segments_no_edges:
  "generate_edges [] total_footprint_sqft = Inr []
   \<and> compute_edge_summary [] =
       \<lparr>total_ridge_ft = 0, total_hip_ft = 0, total_valley_ft = 0,
        total_eave_ft = 0, total_rake_ft = 0, total_linear_ft = 0\<rparr>"
  by (simp add: generate_edges_def compute_edge_summary_def py_round_def)

subsection \<open>Degenerate pitch\<close>

lemma true_area_degenerate:
  "pitch \<le> 0 \<or> pitch \<ge> 90 \<Longrightarrow> true_area_from_footprint f pitch = f"
  by (auto simp: true_area_from_footprint_def)

lemma rake_factor_degenerate:
  "pitch \<le> 0 \<or> pitch \<ge> 90 \<Longrightarrow> rake_factor pitch = 1.0"
  by (auto simp: rake_factor_def)

lemma radians_m45: "radians (- 45) = - (pi / 4)"
  by (simp add: radians_def)

lemma radians_135: "radians 135 = pi - pi / 4"
  by (simp add: radians_def)

lemma tan_135: "tan (pi - pi / 4) = - 1"
proof -
  have "tan (pi - pi / 4) = tan (- (pi / 4) + pi)" by simp
  also have "\<dots> = tan (- (pi / 4))" by (rule tan_periodic_pi)
  also have "\<dots> = - 1" by (simp add: tan_45)
  finally show ?thesis .
qed

text \<open>
  C2. At a pitch of -45 degrees and at a pitch of 135 degrees, both degenerate, the area
  function returns the footprint and the rake factor is 1.0, but the hip and valley factor
  has no guard: it evaluates its formula and returns the square root of 2.
\<close>

theorem hip_valley_factor_degenerate_pitch:
  "true_area_from_footprint 1000 (- 45) = 1000 \<and> rake_factor (- 45) = 1.0
   \<and> hip_valley_factor (- 45) = sqrt 2 \<and> hip_valley_factor 135 = sqrt 2
   \<and> hip_valley_factor (- 45) \<noteq> 1.0 \<and> hip_valley_factor 135 \<noteq> 1.0"
proof -
  have a: "hip_valley_factor (- 45) = sqrt 2"
    unfolding hip_valley_factor_def Let_def radians_m45
    by (simp add: tan_45 real_div_sqrt)
  have b: "hip_valley_factor 135 = sqrt 2"
    unfolding hip_valley_factor_def Let_def radians_135 tan_135
    by (simp add: real_div_sqrt)
  show ?thesis using a b
    by (simp add: true_area_from_footprint_def rake_factor_def)
qed

subsection \<open>Cardinal directions\<close>

lemma py_round_add_even: "even n \<Longrightarrow> py_round (x + of_int n) = py_round x + n"
  unfolding py_round_def Let_def by (simp add: algebra_simps)

lemma py_round_near: "\<bar>e\<bar> < 1 / 2 \<Longrightarrow> py_round (of_int k + e) = k"
proof (cases "0 \<le> e")
  case True
  assume "\<bar>e\<bar> < 1 / 2"
  with True have "\<lfloor>of_int k + e\<rfloor> = k" by (simp add: floor_unique)
  then show ?thesis using True \<open>\<bar>e\<bar> < 1 / 2\<close> unfolding py_round_def Let_def by simp
next
  case False
  assume "\<bar>e\<bar> < 1 / 2"
  with False have "\<lfloor>of_int k + e\<rfloor> = k - 1" by (intro floor_unique) auto
  then show ?thesis using False \<open>\<bar>e\<bar> < 1 / 2\<close> unfolding py_round_def Let_def by auto
qed

lemma py_round_tie: "py_round (of_int k + 1 / 2) = (if even k then k else k + 1)"
proof -
  have "\<lfloor>of_int k + (1 / 2 :: real)\<rfloor> = k" by (simp add: floor_unique)
  then show ?thesis unfolding py_round_def Let_def by simp
qed

lemma py_fmod_360: "py_fmod (py_fmod deg 360 + 360) 360 = py_fmod deg 360"
proof -
  have "\<lfloor>(deg - 360 * of_int \<lfloor>deg / 360\<rfloor> + 360) / 360\<rfloor> = (1::int)"
    by (intro floor_unique) (simp_all add: field_simps, linarith+)
  then show ?thesis by (simp add: py_fmod_def)
qed

lemma py_round_fmod_sector:
  "py_round (py_fmod deg 360 / 22.5) = py_round (deg / 22.5) + (- 16 * \<lfloor>deg / 360\<rfloor>)"
proof -
  have eq: "py_fmod deg 360 / 22.5 = deg / 22.5 + of_int (- 16 * \<lfloor>deg / 360\<rfloor>)"
    by (simp add: py_fmod_def field_simps)
  have ev: "even (- 16 * \<lfloor>deg / 360\<rfloor>)" by simp
  show ?thesis unfolding eq by (rule py_round_add_even [OF ev])
qed

lemma cardinal_index_closed: "cardinal_index deg = py_round (deg / 22.5) mod 16"
proof -
  have "(py_round (deg / 22.5) + (- 16 * \<lfloor>deg / 360\<rfloor>)) mod 16 = py_round (deg / 22.5) mod 16"
    by (metis mod_mult_self2 mult.commute mult_minus_left)
  then show ?thesis
    unfolding cardinal_index_def py_fmod_360 py_round_fmod_sector .
qed

lemma cardinal_index_range: "0 \<le> cardinal_index deg \<and> cardinal_index deg < 16"
  by (simp add: cardinal_index_def)

lemma dirs_nth_mem: "0 \<le> i \<Longrightarrow> i < 16 \<Longrightarrow> dirs ! nat i \<in> set dirs"
  by (rule nth_mem) (simp add: dirs_def)

text \<open>
  C6, as amended. Every bearing maps to one of the 16 directions, and a bearing and its
  value modulo 360 map to the same direction. A bearing at most 11.24 degrees away from the
  \<open>k\<close>-th multiple of 22.5 maps to direction \<open>k mod 16\<close>. A bearing exactly on the sector
  midpoint above the \<open>k\<close>-th multiple goes to the even index (not upwards): to direction
  \<open>k\<close> when \<open>k\<close> is even and to direction \<open>k + 1\<close> when \<open>k\<close> is odd, modulo 16. Nothing
  is said about a bearing closer than 0.01 degrees to a midpoint without being on it: there
  the float sum \<open>(deg % 360) + 360\<close> may round onto the midpoint, which the exact sum of
  \<open>cardinal_index\<close> does not.
\<close>

theorem degrees_to_cardinal_sectors:
  "degrees_to_cardinal deg \<in> set dirs
   \<and> degrees_to_cardinal (py_fmod deg 360) = degrees_to_cardinal deg
   \<and> (\<bar>d\<bar> \<le> 11.24 \<longrightarrow> degrees_to_cardinal (22.5 * of_int k + d) = dirs ! nat (k mod 16))
   \<and> degrees_to_cardinal (22.5 * of_int k + 11.25)
       = dirs ! nat ((if even k then k else k + 1) mod 16)"
proof -
  have a: "degrees_to_cardinal x = dirs ! nat (py_round (x / 22.5) mod 16)" for x
    by (simp add: degrees_to_cardinal_def cardinal_index_closed)
  have b: "degrees_to_cardinal deg \<in> set dirs"
    unfolding degrees_to_cardinal_def using cardinal_index_range [of deg] dirs_nth_mem by blast
  have "cardinal_index (py_fmod deg 360) = cardinal_index deg"
  proof -
    have "(py_round (deg / 22.5) + (- 16 * \<lfloor>deg / 360\<rfloor>)) mod 16 = py_round (deg / 22.5) mod 16"
      by (metis mod_mult_self2 mult.commute mult_minus_left)
    then show ?thesis
      unfolding cardinal_index_closed py_round_fmod_sector .
  qed
  then have c: "degrees_to_cardinal (py_fmod deg 360) = degrees_to_cardinal deg"
    by (simp add: degrees_to_cardinal_def)
  have d: "degrees_to_cardinal (22.5 * of_int k + d) = dirs ! nat (k mod 16)" if "\<bar>d\<bar> \<le> 11.24"
  proof -
    have eq: "(22.5 * of_int k + d) / 22.5 = of_int k + d / 22.5" by (simp add: field_simps)
    have "\<bar>d / 22.5\<bar> < 1 / 2" using that by (simp add: field_simps abs_if split: if_splits)
    then have "py_round (of_int k + d / 22.5) = k" by (rule py_round_near)
    then show ?thesis unfolding a eq by (rule arg_cong [where f = "\<lambda>i. dirs ! nat (i mod 16)"])
  qed
  have e: "degrees_to_cardinal (22.5 * of_int k + 11.25)
       = dirs ! nat ((if even k then k else k + 1) mod 16)"
  proof -
    have eq: "(22.5 * of_int k + 11.25) / 22.5 = (of_int k + 1 / 2 :: real)" by (simp add: field_simps)
    show ?thesis unfolding a eq
      by (rule arg_cong [where f = "\<lambda>i. dirs ! nat (i mod 16)"]) (rule py_round_tie)
  qed
  show ?thesis using b c d e by blast
qed

theorem degrees_to_cardinal_sectors_witness:
  "\<bar>5 :: real\<bar> \<le> 11.24 \<and> degrees_to_cardinal (22.5 * of_int 1 + 5) = ''NNE''"
proof -
  have h: "\<bar>5 :: real\<bar> \<le> 11.24" by simp
  have "degrees_to_cardinal (22.5 * of_int 1 + 5) = dirs ! nat (1 mod 16)"
    using degrees_to_cardinal_sectors [of 0 5 1] h by blast
  then show ?thesis using h by (simp add: dirs_def)
qed

text \<open>
  C6, as stated, fails at the sector midpoints 11.25 and 56.25: the quotients 0.5 and 2.5
  round to the even indices 0 and 2, so the directions are N and NE, not NNE and ENE.
\<close>

theorem degrees_to_cardinal_midpoint_counterexample:
  "degrees_to_cardinal 11.25 = ''N'' \<and> degrees_to_cardinal 11.25 \<noteq> ''NNE''
   \<and> degrees_to_cardinal 56.25 = ''NE'' \<and> degrees_to_cardinal 56.25 \<noteq> ''ENE''"
  by (simp add: degrees_to_cardinal_def cardinal_index_def py_fmod_def py_round_def dirs_def)

subsection \<open>Waste table\<close>

lemma py_round_strict: "x + 1 < y \<Longrightarrow> py_round x < py_round y"
proof -
  assume "x + 1 < y"
  moreover have "of_int (py_round x) \<le> x + 1 / 2" by (rule py_round_upper)
  moreover have "y - 1 / 2 \<le> of_int (py_round y)" by (rule py_round_lower)
  ultimately have "(of_int (py_round x) :: real) < of_int (py_round y)" by linarith
  then show ?thesis by simp
qed

lemma waste_table_gross:
  "map gross_sqft (generate_waste_table t) =
     [py_round (t * 1.05), py_round (t * 1.10), py_round (t * 1.15), py_round (t * 1.20)]"
  by (simp add: generate_waste_table_def WASTE_FACTORS_def waste_row_def)

text \<open>
  C8, as amended. The stored \<open>gross_sqft\<close> is the rounded product of the area and the
  factor. For a total area of at least 0 the four values never decrease from one row to the
  next, and for a total area of at least 20 square feet they increase strictly.
\<close>

theorem waste_table_gross_increasing:
  "(0 \<le> total_sqft \<longrightarrow> sorted (map gross_sqft (generate_waste_table total_sqft)))
   \<and> (20 \<le> total_sqft \<longrightarrow> sorted_wrt (<) (map gross_sqft (generate_waste_table total_sqft)))"
proof (intro conjI impI)
  assume "0 \<le> total_sqft"
  then have "py_round (total_sqft * 1.05) \<le> py_round (total_sqft * 1.10)"
    "py_round (total_sqft * 1.10) \<le> py_round (total_sqft * 1.15)"
    "py_round (total_sqft * 1.15) \<le> py_round (total_sqft * 1.20)"
    by (auto intro!: py_round_mono)
  then show "sorted (map gross_sqft (generate_waste_table total_sqft))"
    unfolding waste_table_gross by simp
next
  assume ge: "20 \<le> total_sqft"
  show "sorted_wrt (<) (map gross_sqft (generate_waste_table total_sqft))"
  proof (cases "total_sqft = 20")
    case True
    then show ?thesis unfolding waste_table_gross by (simp add: py_round_def)
  next
    case False
    with ge have "20 < total_sqft" by simp
    then have "py_round (total_sqft * 1.05) < py_round (total_sqft * 1.10)"
      "py_round (total_sqft * 1.10) < py_round (total_sqft * 1.15)"
      "py_round (total_sqft * 1.15) < py_round (total_sqft * 1.20)"
      by (auto intro!: py_round_strict)
    then show ?thesis unfolding waste_table_gross by simp
  qed
qed

theorem waste_table_gross_increasing_witness:
  "(0 :: real) \<le> 2000 \<and> (20 :: real) \<le> 2000
   \<and> map gross_sqft (generate_waste_table 2000) = [2100, 2200, 2300, 2400]
   \<and> sorted_wrt (<) (map gross_sqft (generate_waste_table 2000))"
  using waste_table_gross_increasing [of 2000]
  by (simp add: waste_table_gross py_round_def)

text \<open>
  C8, as stated, fails for a total area of 1 square foot: 1.05, 1.10, 1.15 and 1.20 all
  round to 1.
\<close>

theorem waste_table_small_area_counterexample:
  "map gross_sqft (generate_waste_table 1) = [1, 1, 1, 1]
   \<and> \<not> sorted_wrt (<) (map gross_sqft (generate_waste_table 1))"
  by (simp add: waste_table_gross py_round_def)

subsection \<open>Edge invariant\<close>

lemma py_round_eqI:
  "of_int k - 1 / 2 < x \<Longrightarrow> x < of_int k + 1 / 2 \<Longrightarrow> py_round x = k"
  using py_round_near [of "x - of_int k" k] by (simp add: abs_if split: if_splits)



lemma py_round_1000: "py_round 1000 = 1000"
  using py_round_of_int [of 1000] by simp










subsection \<open>Bill of materials\<close>

lemma line_total_cents: "line_total q p \<in> range (\<lambda>k :: int. real_of_int k / 100)"
  unfolding line_total_def by (rule rangeI)

lemma sum_list_cents:
  "\<forall>x \<in> set xs. x \<in> range (\<lambda>k :: int. real_of_int k / 100)
   \<Longrightarrow> sum_list xs \<in> range (\<lambda>k :: int. real_of_int k / 100)"
proof (induction xs)
  case Nil
  have "(0 :: real) = real_of_int 0 / 100" by simp
  then show ?case by (simp only: sum_list.Nil) (rule range_eqI)
next
  case (Cons x xs)
  then obtain a b where "x = real_of_int a / 100" "sum_list xs = real_of_int b / 100"
    by auto
  then have "sum_list (x # xs) = real_of_int (a + b) / 100" by (simp add: add_divide_distrib)
  then show ?case by (rule range_eqI)
qed

lemma round_cents:
  "x \<in> range (\<lambda>k :: int. real_of_int k / 100) \<Longrightarrow> real_of_int (py_round (x * 100)) / 100 = x"
  by (auto simp: py_round_of_int)

lemma cme_categories:
  "map category (line_items (compute_material_estimate area edges segs stype)) =
     [''shingles'', ''underlayment'', ''ice_shield'', ''starter_strip'', ''ridge_cap'',
      ''drip_edge'']
     @ (if edge_total ''valley'' edges > 0 then [''valley_metal''] else [])
     @ [''nails'']
     @ (if edge_total ''ridge'' edges > 0 then [''ventilation''] else [])"
  unfolding compute_material_estimate_def Let_def case_prod_beta by simp

lemma cme_total:
  "total_material_cost_cad (compute_material_estimate area edges segs stype) =
     of_int (py_round (sum_list (map line_total_cad
        (line_items (compute_material_estimate area edges segs stype))) * 100)) / 100"
  unfolding compute_material_estimate_def Let_def case_prod_beta by simp

lemma cme_line_totals:
  "\<forall>x \<in> set (map line_total_cad (line_items (compute_material_estimate area edges segs stype))).
      x \<in> range (\<lambda>k :: int. real_of_int k / 100)"
  unfolding compute_material_estimate_def Let_def case_prod_beta
  by (auto simp: line_total_cents)

lemma edge_total_nonneg:
  "\<forall>e \<in> set edges. 0 \<le> true_length_ft e \<Longrightarrow> 0 \<le> edge_total ty edges"
  unfolding edge_total_def by (rule sum_list_nonneg) auto

text \<open>
  C5. When no edge has a negative true length, the total material cost of the estimate
  equals the sum of the line totals of the emitted line items exactly; the valley flashing
  item is emitted exactly when the total valley length is positive and the ridge vent item
  exactly when the total ridge length is positive, so each is absent exactly when its
  driving length is 0.
\<close>

theorem material_cost_total:
  assumes "\<forall>e \<in> set edges. 0 \<le> true_length_ft e"
  shows "total_material_cost_cad (compute_material_estimate area edges segs stype)
           = sum_list (map line_total_cad
               (line_items (compute_material_estimate area edges segs stype)))
         \<and> (''valley_metal''
               \<in> set (map category (line_items (compute_material_estimate area edges segs stype)))
              \<longleftrightarrow> 0 < edge_total ''valley'' edges)
         \<and> (''ventilation''
               \<in> set (map category (line_items (compute_material_estimate area edges segs stype)))
              \<longleftrightarrow> 0 < edge_total ''ridge'' edges)
         \<and> (''valley_metal''
               \<notin> set (map category (line_items (compute_material_estimate area edges segs stype)))
              \<longleftrightarrow> edge_total ''valley'' edges = 0)
         \<and> (''ventilation''
               \<notin> set (map category (line_items (compute_material_estimate area edges segs stype)))
              \<longleftrightarrow> edge_total ''ridge'' edges = 0)"
proof -
  have v: "0 \<le> edge_total ''valley'' edges" and r: "0 \<le> edge_total ''ridge'' edges"
    using assms by (simp_all add: edge_total_nonneg)
  have "sum_list (map line_total_cad
          (line_items (compute_material_estimate area edges segs stype)))
        \<in> range (\<lambda>k :: int. real_of_int k / 100)"
    by (rule sum_list_cents) (rule cme_line_totals)
  then have t: "total_material_cost_cad (compute_material_estimate area edges segs stype)
           = sum_list (map line_total_cad
               (line_items (compute_material_estimate area edges segs stype)))"
    unfolding cme_total by (rule round_cents)
  have a: "''valley_metal''
               \<in> set (map category (line_items (compute_material_estimate area edges segs stype)))
              \<longleftrightarrow> 0 < edge_total ''valley'' edges"
    unfolding cme_categories by simp
  have b: "''ventilation''
               \<in> set (map category (line_items (compute_material_estimate area edges segs stype)))
              \<longleftrightarrow> 0 < edge_total ''ridge'' edges"
    unfolding cme_categories by simp
  show ?thesis using t a b v r by (simp only: simp_thms) linarith
qed

theorem material_cost_total_witness:
  "0 \<le> true_length_ft (hd 
       [\<lparr>edge_type = ''ridge'', label = ''Main Ridge Line'', plan_length_ft = 13,
          true_length_ft = 13, pitch_factor = 1.0, adjacent_segments = Some [0, 1]\<rparr>])
   \<and> total_material_cost_cad (compute_material_estimate 1000 
       [\<lparr>edge_type = ''ridge'', label = ''Main Ridge Line'', plan_length_ft = 13,
          true_length_ft = 13, pitch_factor = 1.0, adjacent_segments = Some [0, 1]\<rparr>] [] ''architectural'')
       = sum_list (map line_total_cad
           (line_items (compute_material_estimate 1000 
       [\<lparr>edge_type = ''ridge'', label = ''Main Ridge Line'', plan_length_ft = 13,
          true_length_ft = 13, pitch_factor = 1.0, adjacent_segments = Some [0, 1]\<rparr>] [] ''architectural'')))
   \<and> ''ventilation''
       \<in> set (map category (line_items (compute_material_estimate 1000 
       [\<lparr>edge_type = ''ridge'', label = ''Main Ridge Line'', plan_length_ft = 13,
          true_length_ft = 13, pitch_factor = 1.0, adjacent_segments = Some [0, 1]\<rparr>] [] ''architectural'')))
   \<and> ''valley_metal''
       \<notin> set (map category (line_items (compute_material_estimate 1000 
       [\<lparr>edge_type = ''ridge'', label = ''Main Ridge Line'', plan_length_ft = 13,
          true_length_ft = 13, pitch_factor = 1.0, adjacent_segments = Some [0, 1]\<rparr>] [] ''architectural'')))"
proof -
  have h: "\<forall>e \<in> set 
       [\<lparr>edge_type = ''ridge'', label = ''Main Ridge Line'', plan_length_ft = 13,
          true_length_ft = 13, pitch_factor = 1.0, adjacent_segments = Some [0, 1]\<rparr>]. 0 \<le> true_length_ft e"
    by simp
  have "edge_total ''valley'' 
       [\<lparr>edge_type = ''ridge'', label = ''Main Ridge Line'', plan_length_ft = 13,
          true_length_ft = 13, pitch_factor = 1.0, adjacent_segments = Some [0, 1]\<rparr>] = 0" "edge_total ''ridge'' 
       [\<lparr>edge_type = ''ridge'', label = ''Main Ridge Line'', plan_length_ft = 13,
          true_length_ft = 13, pitch_factor = 1.0, adjacent_segments = Some [0, 1]\<rparr>] = 13"
    by (simp_all add: edge_total_def)
  then show ?thesis
    using material_cost_total [OF h, of 1000 "[]" "''architectural''"] h by simp
qed

lemma cme_example_total:
  "total_material_cost_cad (compute_material_estimate 1000 
       [\<lparr>edge_type = ''ridge'', label = ''Main Ridge Line'', plan_length_ft = 13,
          true_length_ft = 13, pitch_factor = 1.0, adjacent_segments = Some [0, 1]\<rparr>] [] ''architectural'') = 1748"
  unfolding compute_material_estimate_def Let_def case_prod_beta
  by (simp add: edge_total_def classify_complexity_def complexity_score_def base_waste_of_def
        waste_map_def pitch_variation_of_def PRICING_def line_total_def py_round_def)

subsection \<open>Shingle type\<close>

lemma cme_shingle_line:
  "unit_price_cad (hd (line_items (compute_material_estimate area edges segs stype)))
     = (if stype = ''architectural'' then the (PRICING ''architectural_bundle'')
        else the (PRICING ''3tab_bundle''))
   \<and> description (hd (line_items (compute_material_estimate area edges segs stype)))
     = (if stype = ''architectural'' then ''Architectural (Laminate)''
        else ''3-Tab Standard'') @ '' Shingles''"
  unfolding compute_material_estimate_def Let_def case_prod_beta
  by (simp only: MaterialEstimate.select_convs append_Cons list.sel
        MaterialLineItem.select_convs simp_thms)

lemma ras_weight:
  "estimated_weight_lbs (compute_ras_yield segs area stype)
     = of_int (py_round (area / 100 * weight_per_square stype))"
  unfolding compute_ras_yield_def Let_def
  by (simp only: RASYieldAnalysis.select_convs)

lemma tab_not_architectural: "(''3-tab'' = ''architectural'') = False"
  by simp

lemma cme_not_architectural:
  assumes "stype \<noteq> ''architectural''"
  shows "compute_material_estimate area edges segs stype
           = (compute_material_estimate area edges segs ''3-tab'')\<lparr>shingle_type := stype\<rparr>"
proof -
  have f: "(stype = ''architectural'') = False" using assms by simp
  show ?thesis
    unfolding compute_material_estimate_def Let_def case_prod_beta
    by (simp only: f tab_not_architectural if_False MaterialEstimate.simps)
qed

lemma ras_not_architectural:
  assumes "stype \<noteq> ''architectural''"
  shows "compute_ras_yield segs area stype = compute_ras_yield segs area ''3-tab''"
proof -
  have "weight_per_square stype = weight_per_square ''3-tab''"
    using assms by (simp add: weight_per_square_def)
  then show ?thesis unfolding compute_ras_yield_def by (simp only:)
qed

text \<open>
  C1, as amended. Neither function checks the shingle type or raises. A shingle type other
  than \<open>architectural\<close>, valid or not, is treated as 3-tab: the estimate is the 3-tab
  estimate with the given name stored in it, its shingle line is priced at 32.00 a bundle
  and described as 3-tab, and the yield analysis is the 3-tab analysis, at 230 pounds a
  square.
\<close>

theorem shingle_type_default:
  assumes "stype \<noteq> ''architectural''"
  shows "compute_material_estimate area edges segs stype
           = (compute_material_estimate area edges segs ''3-tab'')\<lparr>shingle_type := stype\<rparr>
         \<and> unit_price_cad (hd (line_items (compute_material_estimate area edges segs stype))) = 32.00
         \<and> description (hd (line_items (compute_material_estimate area edges segs stype)))
             = ''3-Tab Standard Shingles''
         \<and> compute_ras_yield segs area stype = compute_ras_yield segs area ''3-tab''
         \<and> estimated_weight_lbs (compute_ras_yield segs area stype)
             = of_int (py_round (area / 100 * 230))"
proof -
  have f: "(stype = ''architectural'') = False" using assms by simp
  have pr: "the (PRICING ''3tab_bundle'') = 32.00" by (simp add: PRICING_def)
  have p: "unit_price_cad (hd (line_items (compute_material_estimate area edges segs stype))) = 32.00"
    using cme_shingle_line [of area edges segs stype] unfolding f if_False pr by (rule conjunct1)
  have d: "description (hd (line_items (compute_material_estimate area edges segs stype)))
             = ''3-Tab Standard Shingles''"
    using cme_shingle_line [of area edges segs stype] unfolding f if_False by simp
  have w: "estimated_weight_lbs (compute_ras_yield segs area stype)
             = of_int (py_round (area / 100 * 230))"
    unfolding ras_weight weight_per_square_def f if_False ..
  show ?thesis
    by (intro conjI cme_not_architectural ras_not_architectural assms p d w)
qed

theorem shingle_type_default_witness:
  "''slate'' \<noteq> ''architectural''
   \<and> compute_material_estimate 1000 [] [] ''slate''
       = (compute_material_estimate 1000 [] [] ''3-tab'')\<lparr>shingle_type := ''slate''\<rparr>
   \<and> compute_ras_yield [] 1000 ''slate'' = compute_ras_yield [] 1000 ''3-tab''"
proof -
  have h: "''slate'' \<noteq> ''architectural''" by simp
  show ?thesis
    using shingle_type_default [OF h, of 1000 "[]" "[]"] h by blast
qed

lemma cme_slate_total:
  "total_material_cost_cad (compute_material_estimate 1000 [] [] ''slate'') = 1291"
  unfolding compute_material_estimate_def Let_def case_prod_beta
  by (simp add: edge_total_def classify_complexity_def complexity_score_def base_waste_of_def
        waste_map_def pitch_variation_of_def PRICING_def line_total_def py_round_def)

text \<open>
  C1, as stated, fails for the shingle type \<open>slate\<close>: both functions return an ordinary
  result, the estimate with the 3-tab price of 32.00 and a total of 1291.00, the yield
  analysis with the 3-tab weight of 2300 pounds for 1000 square feet.
\<close>

theorem invalid_shingle_type_counterexample:
  "unit_price_cad (hd (line_items (compute_material_estimate 1000 [] [] ''slate''))) = 32.00
   \<and> description (hd (line_items (compute_material_estimate 1000 [] [] ''slate'')))
       = ''3-Tab Standard Shingles''
   \<and> total_material_cost_cad (compute_material_estimate 1000 [] [] ''slate'') = 1291
   \<and> estimated_weight_lbs (compute_ras_yield [] 1000 ''slate'') = 2300"
proof -
  have a: "unit_price_cad (hd (line_items (compute_material_estimate 1000 [] [] ''slate''))) = 32.00"
    "description (hd (line_items (compute_material_estimate 1000 [] [] ''slate'')))
       = ''3-Tab Standard Shingles''"
    using cme_shingle_line [of 1000 "[]" "[]" "''slate''"] by (simp_all add: PRICING_def)
  have b: "estimated_weight_lbs (compute_ras_yield [] 1000 ''slate'') = 2300"
    unfolding ras_weight weight_per_square_def by (simp add: py_round_def)
  show ?thesis using a b cme_slate_total by simp
qed

subsection \<open>RAS recovery rate and slope distribution\<close>

lemma ras_rate:
  "recovery_rate_pct (compute_ras_yield segs area stype) =
     of_int (py_round
       (((sum_list (map binder_oil_gallons (map (ras_segment (weight_per_square stype)) segs)) * 8
          + sum_list (map granules_lbs (map (ras_segment (weight_per_square stype)) segs))
          + sum_list (map fiber_lbs (map (ras_segment (weight_per_square stype)) segs)))
         / (if area / 100 * weight_per_square stype = 0 then 1
            else area / 100 * weight_per_square stype)) * 1000)) / 10"
  unfolding compute_ras_yield_def Let_def
  by (simp only: RASYieldAnalysis.select_convs)

lemma ras_segments:
  "segments (compute_ras_yield segs area stype) = map (ras_segment (weight_per_square stype)) segs"
  unfolding compute_ras_yield_def Let_def
  by (simp only: RASYieldAnalysis.select_convs)

lemma recovery_rates:
  "(the (binder_rate (recovery_class_of x)), the (granule_rate (recovery_class_of x)),
    the (fiber_rate (recovery_class_of x)))
   \<in> {(0.32, 0.33, 0.08), (0.28, 0.36, 0.07), (0.25, 0.40, 0.06)}"
  by (simp add: recovery_class_of_def binder_rate_def granule_rate_def fiber_rate_def)

text \<open>The recoverable weight of one segment: oil in pounds, granules and fiber.\<close>

lemma ras_segment_recoverable:
  "binder_oil_gallons (ras_segment wps seg) * 8 + granules_lbs (ras_segment wps seg)
     + fiber_lbs (ras_segment wps seg)
   = of_int (py_round (true_area_sqft seg / 100 * wps
               * the (binder_rate (recovery_class_of (pitch_rise (RoofSegment.pitch_degrees seg)))) / 8 * 10)) / 10 * 8
     + of_int (py_round (true_area_sqft seg / 100 * wps
               * the (granule_rate (recovery_class_of (pitch_rise (RoofSegment.pitch_degrees seg))))))
     + of_int (py_round (true_area_sqft seg / 100 * wps
               * the (fiber_rate (recovery_class_of (pitch_rise (RoofSegment.pitch_degrees seg))))))"
  unfolding ras_segment_def Let_def by (simp only: RASSegmentYield.select_convs)

lemma rate_cases:
  assumes "(b, g, f) \<in> {(0.32, 0.33, 0.08), (0.28, 0.36, 0.07), (0.25, 0.40, 0.06 :: real)}"
  obtains (oil) "b = 0.32" "g = 0.33" "f = 0.08"
        | (mixed) "b = 0.28" "g = 0.36" "f = 0.07"
        | (granule) "b = 0.25" "g = 0.40" "f = 0.06"
  using assms by blast

lemma rounded_triple_upper:
  assumes "(b, g, f) \<in> {(0.32, 0.33, 0.08), (0.28, 0.36, 0.07), (0.25, 0.40, 0.06 :: real)}"
    and "5.2 \<le> w"
  shows "of_int (py_round (w * b / 8 * 10)) / 10 * 8 + of_int (py_round (w * g))
           + of_int (py_round (w * f)) \<le> w"
proof -
  have 1: "of_int (py_round (w * b / 8 * 10)) \<le> w * b / 8 * 10 + 1 / 2" by (rule py_round_upper)
  have 2: "of_int (py_round (w * g)) \<le> w * g + 1 / 2" by (rule py_round_upper)
  have 3: "of_int (py_round (w * f)) \<le> w * f + 1 / 2" by (rule py_round_upper)
  have "w * b + w * g + w * f \<le> 0.73 * w"
    using assms(1)
  proof (cases rule: rate_cases)
    case oil
    show ?thesis unfolding oil using assms(2) by simp
  next
    case mixed
    show ?thesis unfolding mixed using assms(2) by simp
  next
    case granule
    show ?thesis unfolding granule using assms(2) by simp
  qed
  with 1 2 3 assms(2) show ?thesis by (simp add: field_simps)
qed

lemma rounded_triple_nonneg:
  assumes "(b, g, f) \<in> {(0.32, 0.33, 0.08), (0.28, 0.36, 0.07), (0.25, 0.40, 0.06 :: real)}"
    and "0 \<le> w"
  shows "0 \<le> of_int (py_round (w * b / 8 * 10)) / 10 * 8 + of_int (py_round (w * g))
           + (of_int (py_round (w * f)) :: real)"
proof -
  have "0 \<le> b" "0 \<le> g" "0 \<le> f" using assms(1) by auto
  then have "0 \<le> w * b / 8 * 10" "0 \<le> w * g" "0 \<le> w * f" using assms(2) by simp_all
  then have "0 \<le> py_round (w * b / 8 * 10)" "0 \<le> py_round (w * g)" "0 \<le> py_round (w * f)"
    by (simp_all only: py_round_nonneg)
  then show ?thesis by simp
qed

lemma rounded_small_oil:
  assumes "wps = 250 \<or> wps = 230" and "a = 0 \<or> a = 1 \<or> a = (2 :: real)"
  shows "of_int (py_round (a / 100 * wps * 0.32 / 8 * 10)) / 10 * 8
           + of_int (py_round (a / 100 * wps * 0.33))
           + of_int (py_round (a / 100 * wps * 0.08)) \<le> a / 100 * wps"
  using assms by (elim disjE; simp add: py_round_def)

lemma rounded_small_mixed:
  assumes "wps = 250 \<or> wps = 230" and "a = 0 \<or> a = 1 \<or> a = (2 :: real)"
  shows "of_int (py_round (a / 100 * wps * 0.28 / 8 * 10)) / 10 * 8
           + of_int (py_round (a / 100 * wps * 0.36))
           + of_int (py_round (a / 100 * wps * 0.07)) \<le> a / 100 * wps"
  using assms by (elim disjE; simp add: py_round_def)

lemma rounded_small_granule:
  assumes "wps = 250 \<or> wps = 230" and "a = 0 \<or> a = 1 \<or> a = (2 :: real)"
  shows "of_int (py_round (a / 100 * wps * 0.25 / 8 * 10)) / 10 * 8
           + of_int (py_round (a / 100 * wps * 0.40))
           + of_int (py_round (a / 100 * wps * 0.06)) \<le> a / 100 * wps"
  using assms by (elim disjE; simp add: py_round_def)

lemma rounded_triple_small:
  assumes "(b, g, f) \<in> {(0.32, 0.33, 0.08), (0.28, 0.36, 0.07), (0.25, 0.40, 0.06 :: real)}"
    and "wps = 250 \<or> wps = 230" and "a = 0 \<or> a = 1 \<or> a = (2 :: real)"
  shows "of_int (py_round (a / 100 * wps * b / 8 * 10)) / 10 * 8 + of_int (py_round (a / 100 * wps * g))
           + of_int (py_round (a / 100 * wps * f)) \<le> a / 100 * wps"
  using assms(1)
proof (cases rule: rate_cases)
  case oil
  show ?thesis unfolding oil by (rule rounded_small_oil [OF assms(2,3)])
next
  case mixed
  show ?thesis unfolding mixed by (rule rounded_small_mixed [OF assms(2,3)])
next
  case granule
  show ?thesis unfolding granule by (rule rounded_small_granule [OF assms(2,3)])
qed

lemma sum_list_recoverable:
  "sum_list (map binder_oil_gallons (map F segs)) * 8 + sum_list (map granules_lbs (map F segs))
     + sum_list (map fiber_lbs (map F segs))
   = sum_list (map (\<lambda>s. binder_oil_gallons (F s) * 8 + granules_lbs (F s) + fiber_lbs (F s)) segs)"
  by (induction segs) (simp_all add: algebra_simps)

lemma sum_list_weights:
  "sum_list (map (\<lambda>s. true_area_sqft s / 100 * wps) segs)
     = sum_list (map true_area_sqft segs) / 100 * wps"
  by (induction segs) (simp_all add: algebra_simps add_divide_distrib)

lemma weight_per_square_cases: "weight_per_square stype = 250 \<or> weight_per_square stype = 230"
  by (simp add: weight_per_square_def)

lemma ras_segment_nonneg:
  assumes "0 \<le> true_area_sqft seg" and "0 \<le> wps"
  shows "0 \<le> binder_oil_gallons (ras_segment wps seg) * 8 + granules_lbs (ras_segment wps seg)
           + fiber_lbs (ras_segment wps seg)"
proof -
  have "0 \<le> true_area_sqft seg / 100 * wps" using assms by simp
  then show ?thesis
    unfolding ras_segment_recoverable by (rule rounded_triple_nonneg [OF recovery_rates])
qed

lemma ras_segment_upper:
  assumes "wps = 250 \<or> wps = 230" and "0 \<le> true_area_sqft seg"
    and "true_area_sqft seg \<in> \<int> \<or> 3 \<le> true_area_sqft seg"
  shows "binder_oil_gallons (ras_segment wps seg) * 8 + granules_lbs (ras_segment wps seg)
           + fiber_lbs (ras_segment wps seg) \<le> true_area_sqft seg / 100 * wps"
proof (cases "3 \<le> true_area_sqft seg")
  case True
  with assms(1) have "5.2 \<le> true_area_sqft seg / 100 * wps" by auto
  then show ?thesis
    unfolding ras_segment_recoverable by (rule rounded_triple_upper [OF recovery_rates])
next
  case False
  with assms(3) obtain k :: int where k: "true_area_sqft seg = of_int k"
    by (auto elim: Ints_cases)
  with False assms(2) have "0 \<le> k" "k < 3" by simp_all
  then have "k = 0 \<or> k = 1 \<or> k = 2" by arith
  with k have "true_area_sqft seg = 0 \<or> true_area_sqft seg = 1 \<or> true_area_sqft seg = 2"
    by auto
  then show ?thesis
    unfolding ras_segment_recoverable by (rule rounded_triple_small [OF recovery_rates assms(1)])
qed

lemma or_one_pos: "0 \<le> (x :: real) \<Longrightarrow> 0 < (if x = 0 then 1 else x)"
  by auto

lemma scale_le_1000: "(x :: real) \<le> 1 \<Longrightarrow> x * 1000 \<le> 1000"
  by simp

lemma scale_ge_0: "0 \<le> (x :: real) \<Longrightarrow> 0 \<le> x * 1000"
  by simp

lemma ras_rate_nonneg:
  assumes "0 \<le> area" and "\<forall>s \<in> set segs. 0 \<le> true_area_sqft s"
  shows "0 \<le> recovery_rate_pct (compute_ras_yield segs area stype)"
proof -
  define wps where "wps = weight_per_square stype"
  have wps: "0 \<le> wps" using weight_per_square_cases [of stype] by (auto simp: wps_def)
  define R where "R = sum_list (map (\<lambda>s. binder_oil_gallons (ras_segment wps s) * 8
      + granules_lbs (ras_segment wps s) + fiber_lbs (ras_segment wps s)) segs)"
  define D where "D = (if area / 100 * wps = 0 then 1 else area / 100 * wps)"
  have R0: "0 \<le> R" unfolding R_def
    by (rule sum_list_nonneg) (use assms(2) wps in \<open>auto intro: ras_segment_nonneg\<close>)
  have "0 \<le> area / 100 * wps" using assms(1) wps by simp
  then have "0 < D" unfolding D_def by (rule or_one_pos)
  with R0 have "0 \<le> R / D" by simp
  then have "0 \<le> R / D * 1000" by (rule scale_ge_0)
  then have "0 \<le> py_round (R / D * 1000)" by (rule py_round_nonneg)
  then show ?thesis
    unfolding ras_rate sum_list_recoverable wps_def [symmetric] R_def [symmetric] D_def [symmetric]
    by simp
qed

lemma ras_rate_upper:
  assumes "\<forall>s \<in> set segs. 0 \<le> true_area_sqft s \<and> (true_area_sqft s \<in> \<int> \<or> 3 \<le> true_area_sqft s)"
    and "sum_list (map true_area_sqft segs) \<le> area"
  shows "recovery_rate_pct (compute_ras_yield segs area stype) \<le> 100"
proof -
  define wps where "wps = weight_per_square stype"
  have wc: "wps = 250 \<or> wps = 230" unfolding wps_def by (rule weight_per_square_cases)
  then have wps: "0 < wps" by auto
  define R where "R = sum_list (map (\<lambda>s. binder_oil_gallons (ras_segment wps s) * 8
      + granules_lbs (ras_segment wps s) + fiber_lbs (ras_segment wps s)) segs)"
  define W where "W = area / 100 * wps"
  define D where "D = (if W = 0 then 1 else W)"
  have R0: "0 \<le> R" unfolding R_def
    by (rule sum_list_nonneg) (use assms(1) wps in \<open>auto intro: ras_segment_nonneg\<close>)
  have "R \<le> sum_list (map (\<lambda>s. true_area_sqft s / 100 * wps) segs)" unfolding R_def
  proof (rule sum_list_mono)
    fix s
    assume "s \<in> set segs"
    with assms(1) have "0 \<le> true_area_sqft s" "true_area_sqft s \<in> \<int> \<or> 3 \<le> true_area_sqft s"
      by auto
    then show "binder_oil_gallons (ras_segment wps s) * 8 + granules_lbs (ras_segment wps s)
        + fiber_lbs (ras_segment wps s) \<le> true_area_sqft s / 100 * wps"
      by (rule ras_segment_upper [OF wc])
  qed
  also have "\<dots> = sum_list (map true_area_sqft segs) / 100 * wps" by (rule sum_list_weights)
  also have "\<dots> \<le> W" unfolding W_def using assms(2) wps by (simp add: divide_right_mono)
  finally have RW: "R \<le> W" .
  have "R / D \<le> 1"
  proof (cases "W = 0")
    case True
    with RW R0 show ?thesis by (simp add: D_def)
  next
    case False
    with RW R0 have "0 < W" by simp
    with RW show ?thesis by (simp add: D_def)
  qed
  then have "R / D * 1000 \<le> 1000" by (rule scale_le_1000)
  then have "py_round (R / D * 1000) \<le> py_round 1000" by (rule py_round_mono)
  then have "py_round (R / D * 1000) \<le> 1000" by (simp add: py_round_1000)
  then show ?thesis
    unfolding ras_rate sum_list_recoverable wps_def [symmetric] R_def [symmetric]
      W_def [symmetric] D_def [symmetric]
    by simp
qed

lemma ras_low_pitch_pct:
  "map_of (slope_distribution (compute_ras_yield segs area stype)) ''low_pitch_pct'' =
     Some (of_int (py_round
       (class_area ''binder_oil'' (map (ras_segment (weight_per_square stype)) segs)
          / (if class_area ''binder_oil'' (map (ras_segment (weight_per_square stype)) segs)
                + class_area ''mixed'' (map (ras_segment (weight_per_square stype)) segs)
                + class_area ''granule'' (map (ras_segment (weight_per_square stype)) segs) = 0
             then 1
             else class_area ''binder_oil'' (map (ras_segment (weight_per_square stype)) segs)
                + class_area ''mixed'' (map (ras_segment (weight_per_square stype)) segs)
                + class_area ''granule'' (map (ras_segment (weight_per_square stype)) segs))
          * 100 * 10)) / 10)"
  unfolding compute_ras_yield_def Let_def
  by (simp only: RASYieldAnalysis.select_convs map_of.simps fst_conv snd_conv fun_upd_same)

lemma ras_segment_class:
  "recovery_class (ras_segment wps seg)
     = recovery_class_of (pitch_rise (RoofSegment.pitch_degrees seg))"
  "area_sqft (ras_segment wps seg) = true_area_sqft seg"
  unfolding ras_segment_def Let_def by (simp_all only: RASSegmentYield.select_convs)

lemma low_pitch_areas:
  assumes "\<forall>s \<in> set segs. pitch_rise (RoofSegment.pitch_degrees s) \<le> 4"
  shows "class_area ''binder_oil'' (map (ras_segment wps) segs) = sum_list (map true_area_sqft segs)
         \<and> class_area ''mixed'' (map (ras_segment wps) segs) = 0
         \<and> class_area ''granule'' (map (ras_segment wps) segs) = 0"
  using assms
  by (induction segs) (simp_all add: class_area_def ras_segment_class recovery_class_of_def)

lemma sum_list_areas_pos:
  "segs \<noteq> [] \<Longrightarrow> \<forall>s \<in> set segs. 0 < true_area_sqft s \<Longrightarrow> 0 < sum_list (map true_area_sqft segs)"
proof (induction segs)
  case Nil
  then show ?case by simp
next
  case (Cons s segs)
  then show ?case by (cases "segs = []") (auto intro: add_pos_pos)
qed

lemma low_pitch_uniform:
  assumes "segs \<noteq> []"
    and "\<forall>s \<in> set segs. pitch_rise (RoofSegment.pitch_degrees s) \<le> 4 \<and> 0 < true_area_sqft s"
  shows "(\<forall>y \<in> set (segments (compute_ras_yield segs area stype)). recovery_class y = ''binder_oil'')
         \<and> map_of (slope_distribution (compute_ras_yield segs area stype)) ''low_pitch_pct''
             = Some 100.0"
proof -
  have le: "\<forall>s \<in> set segs. pitch_rise (RoofSegment.pitch_degrees s) \<le> 4" using assms(2) by blast
  have pos: "0 < sum_list (map true_area_sqft segs)"
    using assms by (intro sum_list_areas_pos) auto
  have a: "\<forall>y \<in> set (segments (compute_ras_yield segs area stype)). recovery_class y = ''binder_oil''"
    unfolding ras_segments using le by (auto simp: ras_segment_class recovery_class_of_def)
  have b: "map_of (slope_distribution (compute_ras_yield segs area stype)) ''low_pitch_pct''
             = Some 100.0"
    unfolding ras_low_pitch_pct using low_pitch_areas [OF le] pos by (simp add: py_round_1000)
  show ?thesis using a b by blast
qed

text \<open>
  C7, as amended. The recovery rate is at least 0 when the total area and every segment
  area are at least 0. It is at most 100 when, in addition, the segment areas sum to at
  most the total area and every segment area is a whole number of square feet (as the
  segment parser stores it) or at least 3 square feet. For a non-empty segment list of
  uniform 3:12 pitch (rise 3) with positive areas, every segment is classified as
  \<open>binder_oil\<close> and the low pitch percentage of the slope distribution is 100.0.
\<close>

theorem ras_recovery_and_low_pitch:
  "(0 \<le> area \<and> (\<forall>s \<in> set segs. 0 \<le> true_area_sqft s)
      \<longrightarrow> 0 \<le> recovery_rate_pct (compute_ras_yield segs area stype))
   \<and> ((\<forall>s \<in> set segs. 0 \<le> true_area_sqft s
            \<and> (true_area_sqft s \<in> \<int> \<or> 3 \<le> true_area_sqft s))
        \<and> sum_list (map true_area_sqft segs) \<le> area
      \<longrightarrow> recovery_rate_pct (compute_ras_yield segs area stype) \<le> 100)
   \<and> (segs \<noteq> []
        \<and> (\<forall>s \<in> set segs. pitch_rise (RoofSegment.pitch_degrees s) = 3 \<and> 0 < true_area_sqft s)
      \<longrightarrow> (\<forall>y \<in> set (segments (compute_ras_yield segs area stype)).
              recovery_class y = ''binder_oil'')
          \<and> map_of (slope_distribution (compute_ras_yield segs area stype)) ''low_pitch_pct''
              = Some 100.0)"
proof (intro conjI impI)
  assume "0 \<le> area \<and> (\<forall>s \<in> set segs. 0 \<le> true_area_sqft s)"
  then show "0 \<le> recovery_rate_pct (compute_ras_yield segs area stype)"
    by (intro ras_rate_nonneg) auto
next
  assume "(\<forall>s \<in> set segs. 0 \<le> true_area_sqft s
            \<and> (true_area_sqft s \<in> \<int> \<or> 3 \<le> true_area_sqft s))
        \<and> sum_list (map true_area_sqft segs) \<le> area"
  then show "recovery_rate_pct (compute_ras_yield segs area stype) \<le> 100"
    by (intro ras_rate_upper) auto
next
  assume h: "segs \<noteq> []
        \<and> (\<forall>s \<in> set segs. pitch_rise (RoofSegment.pitch_degrees s) = 3 \<and> 0 < true_area_sqft s)"
  then have "\<forall>s \<in> set segs. pitch_rise (RoofSegment.pitch_degrees s) \<le> 4 \<and> 0 < true_area_sqft s"
    by auto
  with h have l: "(\<forall>y \<in> set (segments (compute_ras_yield segs area stype)).
              recovery_class y = ''binder_oil'')
          \<and> map_of (slope_distribution (compute_ras_yield segs area stype)) ''low_pitch_pct''
              = Some 100.0"
    by (intro low_pitch_uniform) auto
  from l show "\<forall>y \<in> set (segments (compute_ras_yield segs area stype)).
              recovery_class y = ''binder_oil''" by (rule conjunct1)
  from l show "map_of (slope_distribution (compute_ras_yield segs area stype)) ''low_pitch_pct''
              = Some 100.0" by (rule conjunct2)
qed

lemma pitch_rise_3_12: "pitch_rise (arctan (1 / 4) * 180 / pi) = 3"
  by (simp add: pitch_rise_def radians_def tan_arctan)

lemma ras_example_rate:
  "recovery_rate_pct (compute_ras_yield
        [\<lparr>name = ''Segment 1'', footprint_area_sqft = 970, true_area_sqft = 1000,
         true_area_sqm = 0, RoofSegment.pitch_degrees = arctan (1 / 4) * 180 / pi,
         RoofSegment.pitch_ratio = ''3.0:12'', azimuth_degrees = 180,
         azimuth_direction = ''S'', plane_height_meters = None\<rparr>] 1000 ''architectural'') = 73.0"
  unfolding ras_rate
  by (simp add: ras_segment_def pitch_rise_3_12 recovery_class_of_def binder_rate_def
        granule_rate_def fiber_rate_def weight_per_square_def py_round_def)

theorem ras_recovery_and_low_pitch_witness:
  "pitch_rise (arctan (1 / 4) * 180 / pi) = 3 \<and> (1000 :: real) \<in> \<int>
   \<and> recovery_rate_pct (compute_ras_yield
        [\<lparr>name = ''Segment 1'', footprint_area_sqft = 970, true_area_sqft = 1000,
         true_area_sqm = 0, RoofSegment.pitch_degrees = arctan (1 / 4) * 180 / pi,
         RoofSegment.pitch_ratio = ''3.0:12'', azimuth_degrees = 180,
         azimuth_direction = ''S'', plane_height_meters = None\<rparr>] 1000 ''architectural'') = 73.0
   \<and> 0 \<le> recovery_rate_pct (compute_ras_yield
        [\<lparr>name = ''Segment 1'', footprint_area_sqft = 970, true_area_sqft = 1000,
         true_area_sqm = 0, RoofSegment.pitch_degrees = arctan (1 / 4) * 180 / pi,
         RoofSegment.pitch_ratio = ''3.0:12'', azimuth_degrees = 180,
         azimuth_direction = ''S'', plane_height_meters = None\<rparr>] 1000 ''architectural'')
   \<and> recovery_rate_pct (compute_ras_yield
        [\<lparr>name = ''Segment 1'', footprint_area_sqft = 970, true_area_sqft = 1000,
         true_area_sqm = 0, RoofSegment.pitch_degrees = arctan (1 / 4) * 180 / pi,
         RoofSegment.pitch_ratio = ''3.0:12'', azimuth_degrees = 180,
         azimuth_direction = ''S'', plane_height_meters = None\<rparr>] 1000 ''architectural'') \<le> 100
   \<and> map (recovery_class) (segments (compute_ras_yield
        [\<lparr>name = ''Segment 1'', footprint_area_sqft = 970, true_area_sqft = 1000,
         true_area_sqm = 0, RoofSegment.pitch_degrees = arctan (1 / 4) * 180 / pi,
         RoofSegment.pitch_ratio = ''3.0:12'', azimuth_degrees = 180,
         azimuth_direction = ''S'', plane_height_meters = None\<rparr>] 1000 ''architectural'')) = [''binder_oil'']
   \<and> map_of (slope_distribution (compute_ras_yield
        [\<lparr>name = ''Segment 1'', footprint_area_sqft = 970, true_area_sqft = 1000,
         true_area_sqm = 0, RoofSegment.pitch_degrees = arctan (1 / 4) * 180 / pi,
         RoofSegment.pitch_ratio = ''3.0:12'', azimuth_degrees = 180,
         azimuth_direction = ''S'', plane_height_meters = None\<rparr>] 1000 ''architectural'')) ''low_pitch_pct'' = Some 100.0"
proof -
  have c: "map (recovery_class) (segments (compute_ras_yield
        [\<lparr>name = ''Segment 1'', footprint_area_sqft = 970, true_area_sqft = 1000,
         true_area_sqm = 0, RoofSegment.pitch_degrees = arctan (1 / 4) * 180 / pi,
         RoofSegment.pitch_ratio = ''3.0:12'', azimuth_degrees = 180,
         azimuth_direction = ''S'', plane_height_meters = None\<rparr>] 1000 ''architectural'')) = [''binder_oil'']"
    unfolding ras_segments
    by (simp add: ras_segment_class pitch_rise_3_12 recovery_class_of_def)
  show ?thesis
    using ras_recovery_and_low_pitch [of 1000 "[\<lparr>name = ''Segment 1'', footprint_area_sqft = 970, true_area_sqft = 1000,
         true_area_sqm = 0, RoofSegment.pitch_degrees = arctan (1 / 4) * 180 / pi,
         RoofSegment.pitch_ratio = ''3.0:12'', azimuth_degrees = 180,
         azimuth_direction = ''S'', plane_height_meters = None\<rparr>]" "''architectural''"] pitch_rise_3_12 c
    by (simp add: ras_example_rate)
qed

text \<open>
  C7, as stated, fails in its first part. One segment of 0.7 square feet at 3:12 pitch with
  a total area of 0.7 square feet has a recovery rate of 102.9, because the three recovered
  quantities are rounded up; one segment of 1000 square feet with a total area of 100 square
  feet has a recovery rate of 730.0, because the total weight comes from the total area
  argument and the recovered weight from the segment areas.
\<close>

theorem ras_recovery_rate_counterexample:
  "recovery_rate_pct (compute_ras_yield
        [\<lparr>name = ''Segment 1'', footprint_area_sqft = 0.7, true_area_sqft = 0.7,
         true_area_sqm = 0, RoofSegment.pitch_degrees = arctan (1 / 4) * 180 / pi,
         RoofSegment.pitch_ratio = ''3.0:12'', azimuth_degrees = 180,
         azimuth_direction = ''S'', plane_height_meters = None\<rparr>] 0.7 ''architectural'') = 102.9
   \<and> recovery_rate_pct (compute_ras_yield
        [\<lparr>name = ''Segment 1'', footprint_area_sqft = 970, true_area_sqft = 1000,
         true_area_sqm = 0, RoofSegment.pitch_degrees = arctan (1 / 4) * 180 / pi,
         RoofSegment.pitch_ratio = ''3.0:12'', azimuth_degrees = 180,
         azimuth_direction = ''S'', plane_height_meters = None\<rparr>] 100 ''architectural'') = 730.0"
proof -
  have a: "recovery_rate_pct (compute_ras_yield
        [\<lparr>name = ''Segment 1'', footprint_area_sqft = 0.7, true_area_sqft = 0.7,
         true_area_sqm = 0, RoofSegment.pitch_degrees = arctan (1 / 4) * 180 / pi,
         RoofSegment.pitch_ratio = ''3.0:12'', azimuth_degrees = 180,
         azimuth_direction = ''S'', plane_height_meters = None\<rparr>] 0.7 ''architectural'') = 102.9"
    unfolding ras_rate
    by (simp add: ras_segment_def pitch_rise_3_12 recovery_class_of_def binder_rate_def
        granule_rate_def fiber_rate_def weight_per_square_def py_round_def)
  have b: "recovery_rate_pct (compute_ras_yield
        [\<lparr>name = ''Segment 1'', footprint_area_sqft = 970, true_area_sqft = 1000,
         true_area_sqm = 0, RoofSegment.pitch_degrees = arctan (1 / 4) * 180 / pi,
         RoofSegment.pitch_ratio = ''3.0:12'', azimuth_degrees = 180,
         azimuth_direction = ''S'', plane_height_meters = None\<rparr>] 100 ''architectural'') = 730.0"
    unfolding ras_rate
    by (simp add: ras_segment_def pitch_rise_3_12 recovery_class_of_def binder_rate_def
        granule_rate_def fiber_rate_def weight_per_square_def py_round_def)
  show ?thesis using a b by simp
qed

subsection \<open>Pitch ratio\<close>

text \<open>
  The rise at 33.69 degrees is \<open>12 * tan (33.69 * pi / 180)\<close>, about 7.99998. Its bounds
  come from the sine polynomial of degree 5 with the Maclaurin remainder: the sine at
  0.523 and 0.524 brackets \<open>pi / 6\<close>, and the sine and the cosine at 0.587 and 0.589
  bracket the tangent.
\<close>

lemma sin_sum7: "(\<Sum>m<7. sin_coeff m * x ^ m) = x - x ^ 3 / 6 + x ^ 5 / 120" for x :: real
proof -
  have "{..<7::nat} = {0, 1, 2, 3, 4, 5, 6}" by auto
  then show ?thesis
    by (simp add: sin_coeff_def fact_numeral)
qed

lemma sin_poly_bound: "\<bar>sin x - (x - x ^ 3 / 6 + x ^ 5 / 120)\<bar> \<le> \<bar>x\<bar> ^ 7 / 5040" for x :: real
proof -
  have f7: "fact 7 = (5040 :: real)" by (simp add: fact_numeral)
  show ?thesis using Maclaurin_sin_bound [of x 7] unfolding sin_sum7 f7 by simp
qed

lemma sin_lower: "0 \<le> x \<Longrightarrow> x - x ^ 3 / 6 + x ^ 5 / 120 - x ^ 7 / 5040 \<le> sin x" for x :: real
proof -
  assume "0 \<le> x"
  then have "\<bar>x\<bar> ^ 7 = x ^ 7" by simp
  with sin_poly_bound [of x] show ?thesis by (simp only: abs_le_iff) linarith
qed

lemma sin_upper: "0 \<le> x \<Longrightarrow> sin x \<le> x - x ^ 3 / 6 + x ^ 5 / 120 + x ^ 7 / 5040" for x :: real
proof -
  assume "0 \<le> x"
  then have "\<bar>x\<bar> ^ 7 = x ^ 7" by simp
  with sin_poly_bound [of x] show ?thesis by (simp only: abs_le_iff) linarith
qed

lemma sin_0523: "sin (0.523 :: real) < 1 / 2"
proof -
  have "(0.523 :: real) - 0.523 ^ 3 / 6 + 0.523 ^ 5 / 120 + 0.523 ^ 7 / 5040 < 1 / 2"
    by (simp add: power_divide)
  with sin_upper [of "0.523"] show ?thesis by simp
qed

lemma sin_0524: "1 / 2 < sin (0.524 :: real)"
proof -
  have "1 / 2 < (0.524 :: real) - 0.524 ^ 3 / 6 + 0.524 ^ 5 / 120 - 0.524 ^ 7 / 5040"
    by (simp add: power_divide)
  with sin_lower [of "0.524"] show ?thesis by simp
qed

lemma pi_lower: "3.138 < pi"
proof (rule ccontr)
  assume "\<not> 3.138 < pi"
  then have le: "pi / 6 \<le> 0.523" by simp
  have "0.523 \<le> pi / 2" using pi_ge_two by simp
  then have "sin (pi / 6) \<le> sin (0.523 :: real)"
    using le by (subst sin_mono_le_eq) simp_all
  with sin_0523 show False by (simp add: sin_30)
qed

lemma pi_upper: "pi < 3.144"
proof (rule ccontr)
  assume "\<not> pi < 3.144"
  then have le: "0.524 \<le> pi / 6" by simp
  have "sin (0.524 :: real) \<le> sin (pi / 6)"
    using le by (subst sin_mono_le_eq) simp_all
  with sin_0524 show False by (simp add: sin_30)
qed

lemma cos_half_sin: "cos x = 1 - 2 * (sin (x / 2))\<^sup>2" for x :: real
  using cos_double_sin [of "x / 2"] by simp

lemma tan_0587: "53 / 80 < tan (0.587 :: real)"
proof -
  have s1: "0.2893 \<le> sin (0.2935 :: real)"
  proof -
    have "0.2893 \<le> (0.2935 :: real) - 0.2935 ^ 3 / 6 + 0.2935 ^ 5 / 120 - 0.2935 ^ 7 / 5040"
      by (simp add: power_divide)
    with sin_lower [of "0.2935"] show ?thesis by simp
  qed
  have s2: "0.5538 \<le> sin (0.587 :: real)"
  proof -
    have "0.5538 \<le> (0.587 :: real) - 0.587 ^ 3 / 6 + 0.587 ^ 5 / 120 - 0.587 ^ 7 / 5040"
      by (simp add: power_divide)
    with sin_lower [of "0.587"] show ?thesis by simp
  qed
  have "(0.2893 :: real)\<^sup>2 \<le> (sin (0.2935 :: real))\<^sup>2"
    using s1 by (intro power_mono) simp_all
  then have c: "cos (0.587 :: real) \<le> 1 - 2 * 0.2893\<^sup>2"
    using cos_half_sin [of "0.587"] by simp
  have pos: "0 < cos (0.587 :: real)"
    using pi_ge_two by (intro cos_gt_zero) simp_all
  have "53 / 80 * cos (0.587 :: real) \<le> 53 / 80 * (1 - 2 * 0.2893\<^sup>2)"
    using c by simp
  also have "\<dots> < 0.5538" by (simp add: power2_eq_square)
  also have "\<dots> \<le> sin (0.587 :: real)" by (rule s2)
  finally show ?thesis using pos by (simp add: tan_def field_simps)
qed

lemma tan_0589: "tan (0.589 :: real) < 161 / 240"
proof -
  have s1: "sin (0.2945 :: real) \<le> 0.2903"
  proof -
    have "(0.2945 :: real) - 0.2945 ^ 3 / 6 + 0.2945 ^ 5 / 120 + 0.2945 ^ 7 / 5040 \<le> 0.2903"
      by (simp add: power_divide)
    with sin_upper [of "0.2945"] show ?thesis by simp
  qed
  have s0: "0 \<le> sin (0.2945 :: real)"
    using pi_ge_two by (intro sin_ge_zero) simp_all
  have s2: "sin (0.589 :: real) \<le> 0.5556"
  proof -
    have "(0.589 :: real) - 0.589 ^ 3 / 6 + 0.589 ^ 5 / 120 + 0.589 ^ 7 / 5040 \<le> 0.5556"
      by (simp add: power_divide)
    with sin_upper [of "0.589"] show ?thesis by simp
  qed
  have "(sin (0.2945 :: real))\<^sup>2 \<le> (0.2903 :: real)\<^sup>2"
    using s1 s0 by (intro power_mono) simp_all
  then have c: "1 - 2 * 0.2903\<^sup>2 \<le> cos (0.589 :: real)"
    using cos_half_sin [of "0.589"] by simp
  have pos: "0 < cos (0.589 :: real)"
    using pi_ge_two by (intro cos_gt_zero) simp_all
  have "sin (0.589 :: real) \<le> 0.5556" by (rule s2)
  also have "\<dots> < 161 / 240 * (1 - 2 * 0.2903\<^sup>2)" by (simp add: power2_eq_square)
  also have "\<dots> \<le> 161 / 240 * cos (0.589 :: real)" using c by simp
  finally show ?thesis using pos by (simp add: tan_def field_simps)
qed

lemma tan_33_69: "79.5 < 120 * tan (33.69 * pi / 180)" "120 * tan (33.69 * pi / 180) < 80.5"
proof -
  have lo: "0.587 < 33.69 * pi / 180" using pi_lower by simp
  have hi: "33.69 * pi / 180 < 0.589" using pi_upper by simp
  have h2: "(0.589 :: real) < pi / 2" using pi_ge_two by simp
  have m: "- (pi / 2) < (0.587 :: real)"
  proof -
    have "- (pi / 2) < 0" by simp
    also have "(0 :: real) < 0.587" by simp
    finally show ?thesis .
  qed
  have "tan (0.587 :: real) < tan (33.69 * pi / 180)"
  proof (rule tan_monotone [OF m lo])
    show "33.69 * pi / 180 < pi / 2" using hi h2 by linarith
  qed
  with tan_0587 show "79.5 < 120 * tan (33.69 * pi / 180)" by simp
  have "tan (33.69 * pi / 180) < tan (0.589 :: real)"
  proof (rule tan_monotone [OF _ hi h2])
    show "- (pi / 2) < 33.69 * pi / 180" using lo m by linarith
  qed
  with tan_0589 show "120 * tan (33.69 * pi / 180) < 80.5" by simp
qed

lemma rise_33_69: "py_round (12 * tan (radians 33.69) * 10) = 80"
proof -
  have eq: "12 * tan (radians 33.69) * 10 = 120 * tan (33.69 * pi / 180)"
    by (simp add: radians_def)
  show ?thesis unfolding eq using tan_33_69 by (intro py_round_eqI) simp_all
qed

lemma str_tenths_80: "str_tenths 80 = ''8.0''"
  by (simp add: str_tenths_def)

lemma pitch_to_ratio_33_69: "pitch_to_ratio 33.69 = ''8.0:12''"
  unfolding pitch_to_ratio_def Let_def rise_33_69 str_tenths_80 by simp

text \<open>
  C3, as amended. At 33.69 degrees the rise times 10 rounds to 80 and the quotient
  \<open>80 / 10\<close> is the float 8.0, which the f-string prints with its decimal: the result is
  \<open>8.0:12\<close>. At 0 and at 90 degrees the result is \<open>0:12\<close>.
\<close>

theorem pitch_to_ratio_examples:
  "pitch_to_ratio 33.69 = ''8.0:12'' \<and> pitch_to_ratio 0 = ''0:12''
   \<and> pitch_to_ratio 90 = ''0:12''"
  using pitch_to_ratio_33_69 by (simp add: pitch_to_ratio_def)

text \<open>
  C3, as stated, fails in its first part: the result at 33.69 degrees is not \<open>8:12\<close>.
\<close>

theorem pitch_to_ratio_whole_rise_counterexample:
  "pitch_to_ratio 33.69 \<noteq> ''8:12''"
  using pitch_to_ratio_33_69 by simp

end
